theory Spec2Isabelle
  imports Complex_Main
begin

section \<open>Data model\<close>

text \<open>
  The reservation engine of the room reservation backend:
  \<^verbatim>\<open>models/reservation.js\<close> (the second half of \<^verbatim>\<open>src/backend/models/room.js\<close>),
  \<^verbatim>\<open>controllers/reservationController.js\<close>, the reservation schema of
  \<^verbatim>\<open>utils/validations.js\<close> and the guards of \<^verbatim>\<open>routes/reservationRoutes.js\<close>.

  A MongoDB ObjectId is a natural number, a JavaScript \<^verbatim>\<open>Date\<close> is its number of
  milliseconds since the epoch (an \<open>int\<close>), and the quotients the code takes of such
  differences (\<^verbatim>\<open>durationMs / (1000 * 60)\<close>) are exact reals. The collection is the list
  of its documents in insertion order, so \<^verbatim>\<open>findOne\<close> is \<open>find\<close>. The handlers run
  one after the other; a failing database call (the \<^verbatim>\<open>catch\<close> branches, status 500) is
  outside the model. The fields \<^verbatim>\<open>purpose\<close> and \<^verbatim>\<open>specialRequirements\<close>, which no
  rule of the controller reads, are left out: a request is taken to carry a well-formed room
  id and well-formed texts there. The times of a request are those its ISO date strings
  denote, and the capacity of a room is an integer that the room schema keeps between 1 and
  1000, so that the template literal prints its decimal digits.
\<close>

type_synonym objectId = nat

datatype status = Pending | Confirmed | Cancelled | Completed

datatype role = RoleUser | RoleAdmin

record roomDoc =
  capacity :: int
  roomIsActive :: bool

record reservation =
  rid :: objectId
  user :: objectId
  room :: objectId
  startTime :: int
  endTime :: int
  attendees :: int
  status :: status
  createdAt :: int
  updatedAt :: int

text \<open>The authenticated \<^verbatim>\<open>req.user\<close>.\<close>

record actor =
  uid :: objectId
  role :: role

text \<open>The body of \<^verbatim>\<open>POST /api/reservations\<close>.\<close>

record body =
  reqRoom :: objectId
  reqStartTime :: int
  reqEndTime :: int
  reqAttendees :: int

text \<open>
  \<^verbatim>\<open>res.status(c).json({message: m, data: {reservation}})\<close>: the status code, the message
  and the reservation of a successful answer.
\<close>

datatype response = Response (statusCode: nat) (message: string) (payload: "reservation option")

record store =
  reservations :: "reservation list"
  nextId :: objectId

definition emptyStore :: store where
  "emptyStore = \<lparr>reservations = [], nextId = 0\<rparr>"

section \<open>The reservation model\<close>

text \<open>The virtual \<^verbatim>\<open>isActive\<close>: \<^verbatim>\<open>['pending', 'confirmed'].includes(this.status)\<close>.\<close>

definition isActive :: "reservation \<Rightarrow> bool" where
  "isActive r = (status r \<in> set [Pending, Confirmed])"

text \<open>
  The \<^verbatim>\<open>$or\<close> of \<^verbatim>\<open>conflictConditions\<close>, on an existing reservation \<open>r\<close> and the
  requested \<open>startTime\<close>, \<open>endTime\<close>.
\<close>

definition conflictOr :: "int \<Rightarrow> int \<Rightarrow> reservation \<Rightarrow> bool" where
  "conflictOr st en r =
     ((startTime r \<ge> st \<and> startTime r < en)
      \<or> (endTime r > st \<and> endTime r \<le> en)
      \<or> (startTime r \<le> st \<and> endTime r \<ge> en))"

definition conflictConditions ::
  "objectId \<Rightarrow> int \<Rightarrow> int \<Rightarrow> objectId option \<Rightarrow> reservation \<Rightarrow> bool" where
  "conflictConditions roomId st en excludeReservationId r =
     (room r = roomId
      \<and> status r \<in> set [Pending, Confirmed]
      \<and> conflictOr st en r
      \<and> (case excludeReservationId of None \<Rightarrow> True | Some e \<Rightarrow> rid r \<noteq> e))"

definition checkAvailability ::
  "objectId \<Rightarrow> int \<Rightarrow> int \<Rightarrow> objectId option \<Rightarrow> reservation list \<Rightarrow> bool" where
  "checkAvailability roomId st en excludeReservationId docs =
     (let conflictingReservation = find (conflictConditions roomId st en excludeReservationId) docs
      in conflictingReservation = None)"

definition canBeCancelled :: "int \<Rightarrow> reservation \<Rightarrow> bool" where
  "canBeCancelled now r =
     (let hoursUntilStart = real_of_int (startTime r - now) / (1000 * 60 * 60)
      in status r = Confirmed \<and> hoursUntilStart > 2)"

definition findById :: "objectId \<Rightarrow> reservation list \<Rightarrow> reservation option" where
  "findById i docs = find (\<lambda>r. rid r = i) docs"

text \<open>\<^verbatim>\<open>reservation.save()\<close>: the document with this id is replaced.\<close>

definition save :: "reservation \<Rightarrow> store \<Rightarrow> store" where
  "save r' s = s\<lparr>reservations := map (\<lambda>r. if rid r = rid r' then r' else r) (reservations s)\<rparr>"

section \<open>The interval algebra of the specification\<close>

text \<open>
  The specification's overlap of two half-open intervals \<open>[a,b)\<close> and \<open>[c,d)\<close>:
  \<open>a < d\<close> and \<open>c < b\<close>.
\<close>

definition overlaps_spec :: "int \<Rightarrow> int \<Rightarrow> int \<Rightarrow> int \<Rightarrow> bool" where
  "overlaps_spec a b c d = (a < d \<and> c < b)"

section \<open>The request validation\<close>

text \<open>
  \<^verbatim>\<open>createReservationValidation.validate(req.body)\<close>, the first error's message. The keys are
  checked in the schema's order: \<^verbatim>\<open>startTime\<close> (\<^verbatim>\<open>greater('now')\<close>), \<^verbatim>\<open>endTime\<close>
  (\<^verbatim>\<open>greater(Joi.ref('startTime'))\<close>), \<^verbatim>\<open>attendees\<close> (\<^verbatim>\<open>number().integer().min(1)\<close>).
  A number of the library is first a safe one, between \<^verbatim>\<open>Number.MIN_SAFE_INTEGER\<close> and
  \<^verbatim>\<open>Number.MAX_SAFE_INTEGER\<close>, and then it meets its rules; the two messages of
  \<^verbatim>\<open>attendees\<close> are the library's own.
\<close>

definition maxSafeInteger :: int where
  "maxSafeInteger = 2 ^ 53 - 1"

definition createReservationValidation :: "int \<Rightarrow> body \<Rightarrow> string option" where
  "createReservationValidation now b =
     (if \<not> reqStartTime b > now then Some ''Start time must be in the future''
      else if \<not> reqEndTime b > reqStartTime b then Some ''End time must be after start time''
      else if reqAttendees b > maxSafeInteger \<or> reqAttendees b < - maxSafeInteger
        then Some ([CHR 0x22] @ ''attendees'' @ [CHR 0x22] @ '' must be a safe number'')
      else if \<not> reqAttendees b \<ge> 1
        then Some ([CHR 0x22] @ ''attendees'' @ [CHR 0x22] @ '' must be greater than or equal to 1'')
      else None)"

text \<open>The decimal digits of a number, as a template literal prints an integer.\<close>

fun showNat :: "nat \<Rightarrow> string" where
  "showNat n =
     (if n < 10 then [char_of (48 + n)]
      else showNat (n div 10) @ [char_of (48 + n mod 10)])"

declare showNat.simps [simp del]

definition showInt :: "int \<Rightarrow> string" where
  "showInt i = (if i < 0 then ''-'' @ showNat (nat (- i)) else showNat (nat i))"

section \<open>The controller\<close>

text \<open>
  \<^verbatim>\<open>Reservation.create({user: req.user.id, room: roomId, startTime, endTime, attendees, ...})\<close>:
  the new document, with a fresh id, the schema's default status and the time stamps, and
  the collection with the document added.
\<close>

definition createDoc :: "int \<Rightarrow> actor \<Rightarrow> body \<Rightarrow> store \<Rightarrow> reservation" where
  "createDoc now a b s =
     \<lparr>rid = nextId s, user = uid a, room = reqRoom b,
      startTime = reqStartTime b, endTime = reqEndTime b,
      attendees = reqAttendees b, status = Confirmed,
      createdAt = now, updatedAt = now\<rparr>"

definition insertDoc :: "reservation \<Rightarrow> store \<Rightarrow> store" where
  "insertDoc r s = s\<lparr>reservations := reservations s @ [r], nextId := Suc (nextId s)\<rparr>"

definition createReservation ::
  "(objectId \<rightharpoonup> roomDoc) \<Rightarrow> int \<Rightarrow> actor \<Rightarrow> body \<Rightarrow> store \<Rightarrow> response \<times> store" where
  "createReservation rooms now a b s =
     (case createReservationValidation now b of
        Some m \<Rightarrow> (Response 400 m None, s)
      | None \<Rightarrow>
          (case rooms (reqRoom b) of
             None \<Rightarrow> (Response 404 ''Room not found or not available'' None, s)
           | Some rm \<Rightarrow>
               if \<not> roomIsActive rm
                 then (Response 404 ''Room not found or not available'' None, s)
               else if reqAttendees b > capacity rm
                 then (Response 400
                         (''Room capacity exceeded. Maximum capacity: '' @ showInt (capacity rm))
                         None, s)
               else if \<not> checkAvailability (reqRoom b) (reqStartTime b) (reqEndTime b) None
                           (reservations s)
                 then (Response 409 ''Room is not available for the selected time slot'' None, s)
               else
                 (let durationMs = reqEndTime b - reqStartTime b;
                      durationMinutes = real_of_int durationMs / (1000 * 60)
                  in if durationMinutes < 30
                       then (Response 400 ''Minimum booking duration is 30 minutes'' None, s)
                     else if durationMinutes > 8 * 60
                       then (Response 400 ''Maximum booking duration is 8 hours'' None, s)
                     else
                       (let r = createDoc now a b s
                        in (Response 201 ''Reservation created successfully'' (Some r),
                            insertDoc r s)))))"

definition cancelReservation :: "int \<Rightarrow> actor \<Rightarrow> objectId \<Rightarrow> store \<Rightarrow> response \<times> store" where
  "cancelReservation now a i s =
     (case findById i (reservations s) of
        None \<Rightarrow> (Response 404 ''Reservation not found'' None, s)
      | Some r \<Rightarrow>
          if role a \<noteq> RoleAdmin \<and> user r \<noteq> uid a
            then (Response 403 ''Access denied. You can only cancel your own reservations.''
                    None, s)
          else if role a \<noteq> RoleAdmin \<and> \<not> canBeCancelled now r
            then (Response 400
                    ''Reservation cannot be cancelled. Must be cancelled at least 2 hours before start time.''
                    None, s)
          else
            (let r' = r\<lparr>status := Cancelled, updatedAt := now\<rparr>
             in (Response 200 ''Reservation cancelled successfully'' (Some r'), save r' s)))"

text \<open>
  The test \<^verbatim>\<open>['pending', 'confirmed', 'cancelled', 'completed'].includes(status)\<close> of
  \<^verbatim>\<open>updateReservationStatus\<close>, with the status the schema's enum reads from the string.
\<close>

definition statusOfString :: "string \<Rightarrow> status option" where
  "statusOfString x =
     (if x = ''pending'' then Some Pending
      else if x = ''confirmed'' then Some Confirmed
      else if x = ''cancelled'' then Some Cancelled
      else if x = ''completed'' then Some Completed
      else None)"

definition updateReservationStatus ::
  "int \<Rightarrow> string \<Rightarrow> objectId \<Rightarrow> store \<Rightarrow> response \<times> store" where
  "updateReservationStatus now x i s =
     (case statusOfString x of
        None \<Rightarrow> (Response 400 ''Invalid status'' None, s)
      | Some st \<Rightarrow>
          (case findById i (reservations s) of
             None \<Rightarrow> (Response 404 ''Reservation not found'' None, s)
           | Some r \<Rightarrow>
               (let r' = r\<lparr>status := st, updatedAt := now\<rparr>
                in (Response 200 ''Reservation status updated successfully'' (Some r'),
                    save r' s))))"

definition adminCancelReservation :: "int \<Rightarrow> objectId \<Rightarrow> store \<Rightarrow> response \<times> store" where
  "adminCancelReservation now i s =
     (case findById i (reservations s) of
        None \<Rightarrow> (Response 404 ''Reservation not found'' None, s)
      | Some r \<Rightarrow>
          (let r' = r\<lparr>status := Cancelled, updatedAt := now\<rparr>
           in (Response 200 ''Reservation cancelled by admin'' (Some r'), save r' s)))"

section \<open>The routes\<close>

text \<open>The middleware \<^verbatim>\<open>authorize(...roles)\<close> in front of a handler.\<close>

definition authorize ::
  "role list \<Rightarrow> actor \<Rightarrow> (store \<Rightarrow> response \<times> store) \<Rightarrow> store \<Rightarrow> response \<times> store" where
  "authorize roles a next s =
     (if role a \<notin> set roles
        then (Response 403 ''Access denied. Insufficient permissions.'' None, s)
      else next s)"

text \<open>
  The four requests that write reservations, each with the time at which it is served:
  \<^verbatim>\<open>POST /\<close>, \<^verbatim>\<open>PATCH /:id/cancel\<close>, \<^verbatim>\<open>PATCH /admin/:id/status\<close> and
  \<^verbatim>\<open>PATCH /admin/:id/cancel\<close>.
\<close>

datatype request =
    PostReservation int actor body
  | PatchCancel int actor objectId
  | PatchAdminStatus int actor string objectId
  | PatchAdminCancel int actor objectId

fun router :: "(objectId \<rightharpoonup> roomDoc) \<Rightarrow> request \<Rightarrow> store \<Rightarrow> response \<times> store" where
  "router rooms (PostReservation now a b) s = createReservation rooms now a b s"
| "router rooms (PatchCancel now a i) s = cancelReservation now a i s"
| "router rooms (PatchAdminStatus now a x i) s =
     authorize [RoleAdmin] a (updateReservationStatus now x i) s"
| "router rooms (PatchAdminCancel now a i) s =
     authorize [RoleAdmin] a (adminCancelReservation now i) s"

text \<open>The store after a sequence of requests.\<close>

fun serve :: "(objectId \<rightharpoonup> roomDoc) \<Rightarrow> request list \<Rightarrow> store \<Rightarrow> store" where
  "serve rooms [] s = s"
| "serve rooms (q # qs) s = serve rooms qs (snd (router rooms q s))"

section \<open>The no-overlap invariant\<close>

text \<open>
  No two reservations of one room that are both pending or confirmed overlap, in the
  specification's sense of overlap.
\<close>

definition noOverlap :: "reservation list \<Rightarrow> bool" where
  "noOverlap docs =
     (\<forall>r1 \<in> set docs. \<forall>r2 \<in> set docs.
        rid r1 \<noteq> rid r2 \<and> room r1 = room r2 \<and> isActive r1 \<and> isActive r2 \<longrightarrow>
        \<not> overlaps_spec (startTime r1) (endTime r1) (startTime r2) (endTime r2))"

text \<open>
  A request double-books when it is an administrator's status update to pending or confirmed
  of a reservation that is cancelled or completed and whose interval overlaps the one of
  another pending or confirmed reservation of the same room.
\<close>

fun doubleBooks :: "request \<Rightarrow> store \<Rightarrow> bool" where
  "doubleBooks (PatchAdminStatus now a x i) s =
     (case statusOfString x of
        None \<Rightarrow> False
      | Some st \<Rightarrow>
          (case findById i (reservations s) of
             None \<Rightarrow> False
           | Some r \<Rightarrow>
               role a = RoleAdmin \<and> st \<in> set [Pending, Confirmed] \<and> \<not> isActive r
               \<and> (\<exists>y \<in> set (reservations s).
                     rid y \<noteq> rid r \<and> room y = room r \<and> isActive y
                     \<and> overlaps_spec (startTime y) (endTime y) (startTime r) (endTime r))))"
| "doubleBooks _ s = False"

fun neverDoubleBooks :: "(objectId \<rightharpoonup> roomDoc) \<Rightarrow> request list \<Rightarrow> store \<Rightarrow> bool" where
  "neverDoubleBooks rooms [] s = True"
| "neverDoubleBooks rooms (q # qs) s =
     (\<not> doubleBooks q s \<and> neverDoubleBooks rooms qs (snd (router rooms q s)))"

text \<open>
  The invariant of the store: every interval is well formed, the ids are distinct and below
  the next id, and no two active reservations of a room overlap.
\<close>

definition storeInv :: "store \<Rightarrow> bool" where
  "storeInv s =
     ((\<forall>r \<in> set (reservations s). startTime r < endTime r \<and> rid r < nextId s)
      \<and> distinct (map rid (reservations s))
      \<and> noOverlap (reservations s))"

section \<open>Example data\<close>

text \<open>
  A room of capacity 10, two users and an administrator, and a store that holds one confirmed
  reservation of the room; \<open>neighbour\<close> is a reservation that starts when that one ends.
\<close>

definition demoRooms :: "objectId \<rightharpoonup> roomDoc" where
  "demoRooms = [1 \<mapsto> \<lparr>capacity = 10, roomIsActive = True\<rparr>]"

definition alice :: actor where
  "alice = \<lparr>uid = 7, role = RoleUser\<rparr>"

definition bob :: actor where
  "bob = \<lparr>uid = 8, role = RoleUser\<rparr>"

definition admin :: actor where
  "admin = \<lparr>uid = 9, role = RoleAdmin\<rparr>"

definition demoReservation :: reservation where
  "demoReservation = \<lparr>rid = 0, user = 7, room = 1, startTime = 10000000, endTime = 13600000,
     attendees = 2, status = Confirmed, createdAt = 0, updatedAt = 0\<rparr>"

definition neighbour :: reservation where
  "neighbour = \<lparr>rid = 1, user = 8, room = 1, startTime = 13600000, endTime = 17200000,
     attendees = 4, status = Pending, createdAt = 5, updatedAt = 5\<rparr>"

definition demoStore :: store where
  "demoStore = \<lparr>reservations = [demoReservation], nextId = 1\<rparr>"

definition cancelledStore :: store where
  "cancelledStore = \<lparr>reservations = [demoReservation\<lparr>status := Cancelled, updatedAt := 5\<rparr>], nextId = 1\<rparr>"

text \<open>
  Requests for the room: one of exactly thirty minutes in a free slot, one of ten minutes inside
  the stored reservation, one that starts in the past for a room that does not exist, and
  one for the slot of the stored reservation and one for the hour after it. In \<open>rebooked\<close>
  the slot is booked, cancelled by the administrator and booked again by somebody else; in
  \<open>reconfirmed\<close> it is booked and cancelled, the hour after it is booked by somebody else,
  and the administrator sets the first reservation back to confirmed.
\<close>

definition halfHour :: body where
  "halfHour = \<lparr>reqRoom = 1, reqStartTime = 20000000, reqEndTime = 21800000, reqAttendees = 10\<rparr>"



definition booking :: body where
  "booking = \<lparr>reqRoom = 1, reqStartTime = 10000000, reqEndTime = 13600000, reqAttendees = 2\<rparr>"

definition laterBooking :: body where
  "laterBooking = \<lparr>reqRoom = 1, reqStartTime = 13600000, reqEndTime = 17200000, reqAttendees = 4\<rparr>"

definition reconfirmed :: "request list" where
  "reconfirmed = [PostReservation 0 alice booking, PatchAdminCancel 5 admin 0,
                  PostReservation 6 bob laterBooking,
                  PatchAdminStatus 7 admin ''confirmed'' 0]"

definition rebooked :: "request list" where
  "rebooked = [PostReservation 0 alice booking, PatchAdminCancel 5 admin 0,
               PostReservation 6 bob booking]"

section \<open>The conflict query and the interval algebra\<close>

lemma conflictOr_overlaps:
  "startTime r < endTime r \<Longrightarrow> st < en \<Longrightarrow>
   conflictOr st en r = overlaps_spec (startTime r) (endTime r) st en"
  unfolding conflictOr_def overlaps_spec_def by arith

section \<open>Lookups and the store invariant\<close>

lemma findById_Some: "findById i docs = Some r \<Longrightarrow> r \<in> set docs \<and> rid r = i"
  unfolding findById_def by (auto simp: find_Some_iff)

lemma findById_None: "findById i docs = None \<Longrightarrow> \<forall>r \<in> set docs. rid r \<noteq> i"
  unfolding findById_def by (auto simp: find_None_iff)

lemma checkAvailability_iff:
  "checkAvailability roomId st en ex docs = (\<forall>r \<in> set docs. \<not> conflictConditions roomId st en ex r)"
  unfolding checkAvailability_def by (auto simp: find_None_iff)

lemma overlaps_spec_sym: "overlaps_spec a b c d = overlaps_spec c d a b"
  unfolding overlaps_spec_def by auto

lemma storeInv_save:
  assumes inv: "storeInv s"
    and found: "findById i (reservations s) = Some r"
    and act: "isActive (r\<lparr>status := st, updatedAt := t\<rparr>) \<longrightarrow>
              isActive r
              \<or> (\<forall>y \<in> set (reservations s).
                    rid y \<noteq> rid r \<and> room y = room r \<and> isActive y \<longrightarrow>
                    \<not> overlaps_spec (startTime y) (endTime y) (startTime r) (endTime r))"
  shows "storeInv (save (r\<lparr>status := st, updatedAt := t\<rparr>) s)"
proof -
  let ?r' = "r\<lparr>status := st, updatedAt := t\<rparr>"
  let ?g = "\<lambda>x. if rid x = rid ?r' then ?r' else x"
  let ?docs = "reservations s"
  from found have rin: "r \<in> set ?docs" and "rid r = i"
    by (simp_all add: findById_Some)
  from inv have dist: "distinct (map rid ?docs)" and no0: "noOverlap ?docs"
    by (simp_all add: storeInv_def)
  have same: "x = r" if "x \<in> set ?docs" "rid x = rid r" for x
    using dist rin that by (meson distinct_map inj_onD)
  have g: "rid (?g x) = rid x \<and> room (?g x) = room x \<and> startTime (?g x) = startTime x
           \<and> endTime (?g x) = endTime x"
    if "x \<in> set ?docs" for x
    using same [OF that] by auto
  have other: "?g x = x" if "rid x \<noteq> rid r" for x
    using that by simp
  have woke: "x = r \<and> \<not> isActive r \<and> isActive ?r'"
    if "x \<in> set ?docs" "isActive (?g x)" "\<not> isActive x" for x
  proof -
    from that(2,3) have "rid x = rid r"
      by (auto split: if_splits)
    with same that show ?thesis by auto
  qed
  have half: "\<not> overlaps_spec (startTime x1) (endTime x1) (startTime x2) (endTime x2)"
    if x: "x1 \<in> set ?docs" "x2 \<in> set ?docs" "rid x1 \<noteq> rid x2" "room x1 = room x2"
      and a: "isActive (?g x1)" "isActive (?g x2)" "\<not> isActive x1" for x1 x2
  proof -
    from woke [OF x(1) a(1) a(3)] have x1: "x1 = r" "\<not> isActive r" "isActive ?r'"
      by simp_all
    with x(3) a(2) other [of x2] have "isActive x2"
      by simp
    with act x1 x have "\<not> overlaps_spec (startTime x2) (endTime x2) (startTime r) (endTime r)"
      by auto
    with x1(1) show ?thesis
      by (simp add: overlaps_spec_sym)
  qed
  have pair: "\<not> overlaps_spec (startTime x1) (endTime x1) (startTime x2) (endTime x2)"
    if x: "x1 \<in> set ?docs" "x2 \<in> set ?docs" "rid x1 \<noteq> rid x2" "room x1 = room x2"
      and a: "isActive (?g x1)" "isActive (?g x2)" for x1 x2
  proof (cases "isActive x1")
    case False
    from half [OF x a False] show ?thesis .
  next
    case x1: True
    show ?thesis
    proof (cases "isActive x2")
      case False
      from x have "rid x2 \<noteq> rid x1" "room x2 = room x1"
        by simp_all
      from half [OF x(2) x(1) this a(2) a(1) False] show ?thesis
        by (simp add: overlaps_spec_sym)
    next
      case True
      with x1 x no0 show ?thesis
        unfolding noOverlap_def by blast
    qed
  qed
  have no: "noOverlap (map ?g ?docs)"
    unfolding noOverlap_def
  proof (intro ballI impI)
    fix y1 y2
    assume y: "y1 \<in> set (map ?g ?docs)" "y2 \<in> set (map ?g ?docs)"
      and c: "rid y1 \<noteq> rid y2 \<and> room y1 = room y2 \<and> isActive y1 \<and> isActive y2"
    from y obtain x1 x2 where x: "x1 \<in> set ?docs" "y1 = ?g x1" "x2 \<in> set ?docs" "y2 = ?g x2"
      by auto
    from g [OF x(1)] g [OF x(3)] c pair [OF x(1) x(3)]
    show "\<not> overlaps_spec (startTime y1) (endTime y1) (startTime y2) (endTime y2)"
      unfolding x(2) x(4) by metis
  qed
  have ids: "map rid (map ?g ?docs) = map rid ?docs"
    using g by (simp add: o_def cong: map_cong)
  have wf: "\<forall>x \<in> set (map ?g ?docs). startTime x < endTime x \<and> rid x < nextId s"
  proof
    fix y assume "y \<in> set (map ?g ?docs)"
    then obtain x where x: "x \<in> set ?docs" and y: "y = ?g x"
      by auto
    from inv x have "startTime x < endTime x \<and> rid x < nextId s"
      by (simp add: storeInv_def)
    with g [OF x] show "startTime y < endTime y \<and> rid y < nextId s"
      unfolding y by metis
  qed
  have d': "distinct (map rid (map ?g ?docs))"
    by (simp only: ids dist)
  have e1: "reservations (save ?r' s) = map ?g ?docs"
    and e2: "nextId (save ?r' s) = nextId s"
    by (simp_all add: save_def)
  show ?thesis
    unfolding storeInv_def e1 e2 using wf d' no by blast
qed

lemma storeInv_createReservation:
  assumes inv: "storeInv s"
  shows "storeInv (snd (createReservation rooms now a b s))"
proof (cases "statusCode (fst (createReservation rooms now a b s)) = 201")
  case False
  then have "snd (createReservation rooms now a b s) = s"
    by (auto simp: createReservation_def Let_def split: option.splits if_splits)
  with inv show ?thesis by simp
next
  case True
  let ?r = "\<lparr>rid = nextId s, user = uid a, room = reqRoom b,
             startTime = reqStartTime b, endTime = reqEndTime b,
             attendees = reqAttendees b, status = Confirmed,
             createdAt = now, updatedAt = now\<rparr>"
  from True have valid: "reqStartTime b < reqEndTime b"
    and avail: "checkAvailability (reqRoom b) (reqStartTime b) (reqEndTime b) None (reservations s)"
    and res: "snd (createReservation rooms now a b s)
              = s\<lparr>reservations := reservations s @ [?r], nextId := Suc (nextId s)\<rparr>"
    by (auto simp: createReservation_def createReservationValidation_def createDoc_def
        insertDoc_def Let_def split: option.splits if_splits)
  have free: "\<not> overlaps_spec (startTime x) (endTime x) (reqStartTime b) (reqEndTime b)"
    if "x \<in> set (reservations s)" "room x = reqRoom b" "isActive x" for x
  proof -
    from inv that have "startTime x < endTime x"
      by (simp add: storeInv_def)
    moreover from avail that have "\<not> conflictOr (reqStartTime b) (reqEndTime b) x"
      by (auto simp: checkAvailability_iff conflictConditions_def isActive_def)
    ultimately show ?thesis
      using valid by (simp add: conflictOr_overlaps)
  qed
  have fresh: "\<forall>x \<in> set (reservations s). rid x < nextId s"
    using inv by (simp add: storeInv_def)
  have no: "noOverlap (reservations s @ [?r])"
    using inv free overlaps_spec_sym
    unfolding storeInv_def noOverlap_def by (auto simp: )
  have wf: "\<forall>x \<in> set (reservations s @ [?r]). startTime x < endTime x \<and> rid x < Suc (nextId s)"
    using inv valid unfolding storeInv_def by (auto simp: less_Suc_eq)
  have dist: "distinct (map rid (reservations s @ [?r]))"
    using inv fresh unfolding storeInv_def by auto
  show ?thesis
    unfolding res storeInv_def using wf dist no by simp
qed

lemma storeInv_updateReservationStatus:
  assumes inv: "storeInv s" and ok: "\<not> doubleBooks (PatchAdminStatus now a x i) s"
    and adm: "role a = RoleAdmin"
  shows "storeInv (snd (updateReservationStatus now x i s))"
proof (cases "statusOfString x")
  case None
  with inv show ?thesis by (simp add: updateReservationStatus_def)
next
  case st: (Some st)
  show ?thesis
  proof (cases "findById i (reservations s)")
    case None
    with st inv show ?thesis by (simp add: updateReservationStatus_def)
  next
    case (Some r)
    have "isActive (r\<lparr>status := st, updatedAt := now\<rparr>) \<longrightarrow>
              isActive r
              \<or> (\<forall>y \<in> set (reservations s).
                    rid y \<noteq> rid r \<and> room y = room r \<and> isActive y \<longrightarrow>
                    \<not> overlaps_spec (startTime y) (endTime y) (startTime r) (endTime r))"
      using ok st Some adm by (auto simp: isActive_def)
    from storeInv_save [OF inv Some this] st Some show ?thesis
      by (simp add: updateReservationStatus_def Let_def)
  qed
qed

lemma storeInv_router:
  assumes "storeInv s" and "\<not> doubleBooks q s"
  shows "storeInv (snd (router rooms q s))"
proof (cases q)
  case (PostReservation now a b)
  with assms show ?thesis by (simp add: storeInv_createReservation)
next
  case (PatchCancel now a i)
  with assms show ?thesis
    by (auto simp: cancelReservation_def Let_def isActive_def intro!: storeInv_save
        split: option.splits)
next
  case (PatchAdminStatus now a x i)
  show ?thesis
  proof (cases "role a = RoleAdmin")
    case True
    with assms PatchAdminStatus storeInv_updateReservationStatus [of s now a x i]
    show ?thesis by (simp add: authorize_def)
  next
    case False
    with assms PatchAdminStatus show ?thesis by (simp add: authorize_def)
  qed
next
  case (PatchAdminCancel now a i)
  with assms show ?thesis
    by (auto simp: authorize_def adminCancelReservation_def Let_def isActive_def
        intro!: storeInv_save split: option.splits)
qed

lemma storeInv_serve:
  "storeInv s \<Longrightarrow> neverDoubleBooks rooms qs s \<Longrightarrow> storeInv (serve rooms qs s)"
  by (induction qs arbitrary: s) (simp_all add: storeInv_router)

text \<open>
  The premise on the requests is the least one: a request that double-books leaves two
  overlapping active reservations of one room.
\<close>

lemma doubleBooks_breaks:
  assumes "doubleBooks q s"
  shows "\<not> noOverlap (reservations (snd (router rooms q s)))"
proof -
  from assms obtain now a x i where q: "q = PatchAdminStatus now a x i"
    by (cases q) simp_all
  from assms q obtain st r y where st: "statusOfString x = Some st"
    and r: "findById i (reservations s) = Some r"
    and adm: "role a = RoleAdmin" and act: "st \<in> set [Pending, Confirmed]"
    and y: "y \<in> set (reservations s)" "rid y \<noteq> rid r" "room y = room r" "isActive y"
      "overlaps_spec (startTime y) (endTime y) (startTime r) (endTime r)"
    by (auto split: option.splits)
  let ?r' = "r\<lparr>status := st, updatedAt := now\<rparr>"
  let ?g = "\<lambda>x. if rid x = rid ?r' then ?r' else x"
  have res: "reservations (snd (router rooms q s)) = map ?g (reservations s)"
    using q st r adm by (simp add: authorize_def updateReservationStatus_def save_def Let_def)
  from r have "r \<in> set (reservations s)"
    by (simp add: findById_Some)
  then have "?g r \<in> set (map ?g (reservations s))"
    by (rule imageI [of r "set (reservations s)" ?g, folded set_map])
  then have r': "?r' \<in> set (map ?g (reservations s))"
    by simp
  from y(1) have "?g y \<in> set (map ?g (reservations s))"
    by (rule imageI [of y "set (reservations s)" ?g, folded set_map])
  with y(2) have y': "y \<in> set (map ?g (reservations s))"
    by simp
  have "isActive ?r'"
    using act by (simp add: isActive_def)
  with y r' y' show ?thesis
    unfolding res noOverlap_def
    by (intro notI) (drule bspec [OF _ y'], drule bspec [OF _ r'], simp)
qed

lemma storeInv_emptyStore: "storeInv emptyStore"
  by (simp add: storeInv_def emptyStore_def noOverlap_def)



lemma findById_save:
  "findById i (reservations s) = Some r \<Longrightarrow> rid r' = rid r \<Longrightarrow>
   findById i (reservations (save r' s)) = Some r'"
proof -
  have "find (\<lambda>x. rid x = i) docs = Some r \<Longrightarrow> rid r' = rid r \<Longrightarrow>
        find (\<lambda>x. rid x = i) (map (\<lambda>x. if rid x = rid r' then r' else x) docs) = Some r'" for docs
    by (induction docs) (auto split: if_splits)
  then show "findById i (reservations s) = Some r \<Longrightarrow> rid r' = rid r \<Longrightarrow>
   findById i (reservations (save r' s)) = Some r'"
    by (simp add: findById_def save_def)
qed

lemma canBeCancelled_iff:
  "canBeCancelled now r \<longleftrightarrow> status r = Confirmed \<and> now < startTime r - 2 * 60 * 60 * 1000"
proof -
  have "(2 < real_of_int x / (1000 * 60 * 60)) = (7200000 < x)" for x :: int
  proof -
    have "(2 < real_of_int x / (1000 * 60 * 60)) = (real_of_int 7200000 < real_of_int x)"
      by (simp add: field_simps)
    also have "\<dots> = (7200000 < x)"
      by (simp only: of_int_less_iff)
    finally show ?thesis .
  qed
  then show ?thesis
    unfolding canBeCancelled_def Let_def by auto
qed

lemma save_save:
  "rid r1 = rid r2 \<Longrightarrow> save r2 (save r1 s) = save r2 s"
  by (simp add: save_def o_def cong: map_cong)

lemma durationMinutes_min:
  "(real_of_int d / (1000 * 60) < 30) = (d < 30 * 60 * 1000)"
proof -
  have "(real_of_int d / (1000 * 60) < 30) = (real_of_int d < real_of_int 1800000)"
    by (simp add: field_simps)
  also have "\<dots> = (d < 1800000)"
    by (simp only: of_int_less_iff)
  finally show ?thesis by simp
qed

lemma durationMinutes_max:
  "(real_of_int d / (1000 * 60) > 8 * 60) = (d > 8 * 60 * 60 * 1000)"
proof -
  have "(real_of_int d / (1000 * 60) > 8 * 60) = (real_of_int 28800000 < real_of_int d)"
    by (simp add: field_simps)
  also have "\<dots> = (28800000 < d)"
    by (simp only: of_int_less_iff)
  finally show ?thesis by simp
qed


lemma createReservation_valid:
  assumes "createReservationValidation now b = None"
    and "rooms (reqRoom b) = Some rm" and "roomIsActive rm"
  shows "createReservation rooms now a b s =
     (if reqAttendees b > capacity rm
        then (Response 400
                (''Room capacity exceeded. Maximum capacity: '' @ showInt (capacity rm)) None, s)
      else if \<not> checkAvailability (reqRoom b) (reqStartTime b) (reqEndTime b) None (reservations s)
        then (Response 409 ''Room is not available for the selected time slot'' None, s)
      else if reqEndTime b - reqStartTime b < 30 * 60 * 1000
        then (Response 400 ''Minimum booking duration is 30 minutes'' None, s)
      else if reqEndTime b - reqStartTime b > 8 * 60 * 60 * 1000
        then (Response 400 ''Maximum booking duration is 8 hours'' None, s)
      else (Response 201 ''Reservation created successfully'' (Some (createDoc now a b s)),
            insertDoc (createDoc now a b s) s))"
  using assms
  by (simp add: createReservation_def Let_def durationMinutes_min durationMinutes_max
      del: of_int_diff)

section \<open>Claims about the conflict detector\<close>

text \<open>
  C2. For an existing reservation with a well-formed interval \<open>[a,b)\<close> and a well-formed
  candidate \<open>[c,d)\<close>, the three-disjunct query of \<^verbatim>\<open>checkAvailability\<close> holds exactly when
  \<open>a < d\<close> and \<open>c < b\<close>; when one interval ends where the other starts, the query does
  not match and the reservation is not a conflict.
\<close>

theorem conflict_query_iff_overlap:
  assumes "startTime r < endTime r" and "c < d"
  shows "(conflictOr c d r \<longleftrightarrow> startTime r < d \<and> c < endTime r)
         \<and> (endTime r = c \<or> d = startTime r \<longrightarrow>
              \<not> conflictOr c d r \<and> \<not> conflictConditions roomId c d ex r)"
  using assms unfolding conflictConditions_def conflictOr_def by arith

theorem conflict_query_iff_overlap_witness:
  "startTime demoReservation < endTime demoReservation \<and> (13600000::int) < 15400000
   \<and> endTime demoReservation = 13600000
   \<and> \<not> conflictOr 13600000 15400000 demoReservation
   \<and> \<not> conflictConditions 1 13600000 15400000 None demoReservation
   \<and> checkAvailability 1 13600000 15400000 None (reservations demoStore)"
proof -
  have h: "startTime demoReservation < endTime demoReservation" "(13600000::int) < 15400000"
    by (simp_all add: demoReservation_def)
  have e: "endTime demoReservation = 13600000"
    by (simp add: demoReservation_def)
  from conflict_query_iff_overlap [OF h, of 1 None] e
  have n: "\<not> conflictOr 13600000 15400000 demoReservation"
    "\<not> conflictConditions 1 13600000 15400000 None demoReservation"
    by simp_all
  then show ?thesis
    using h e by (simp add: checkAvailability_def demoStore_def)
qed

text \<open>
  C9. With an excluded id \<open>E\<close>, \<^verbatim>\<open>checkAvailability\<close> answers as if the reservation \<open>E\<close>
  were absent and never matches it; re-checking a stored reservation's own interval with its
  own id excluded reports the slot available whenever no other active reservation of the
  room overlaps it.
\<close>

theorem checkAvailability_exclude_self:
  "checkAvailability roomId st en (Some E) docs
     = checkAvailability roomId st en (Some E) (filter (\<lambda>r. rid r \<noteq> E) docs)
   \<and> (\<forall>r \<in> set docs. rid r = E \<longrightarrow> \<not> conflictConditions roomId st en (Some E) r)
   \<and> (\<forall>r \<in> set docs.
        rid r = E \<and> (\<forall>x \<in> set docs. startTime x < endTime x)
        \<and> (\<forall>x \<in> set docs. rid x \<noteq> E \<and> room x = room r \<and> isActive x \<longrightarrow>
              \<not> overlaps_spec (startTime x) (endTime x) (startTime r) (endTime r))
        \<longrightarrow> checkAvailability (room r) (startTime r) (endTime r) (Some E) docs)"
proof (intro conjI ballI impI)
  show "checkAvailability roomId st en (Some E) docs
     = checkAvailability roomId st en (Some E) (filter (\<lambda>r. rid r \<noteq> E) docs)"
    by (auto simp: checkAvailability_iff conflictConditions_def)
next
  fix r assume "r \<in> set docs" "rid r = E"
  then show "\<not> conflictConditions roomId st en (Some E) r"
    by (simp add: conflictConditions_def)
next
  fix r
  assume r: "r \<in> set docs"
    and h: "rid r = E \<and> (\<forall>x \<in> set docs. startTime x < endTime x)
        \<and> (\<forall>x \<in> set docs. rid x \<noteq> E \<and> room x = room r \<and> isActive x \<longrightarrow>
              \<not> overlaps_spec (startTime x) (endTime x) (startTime r) (endTime r))"
  have "\<not> conflictConditions (room r) (startTime r) (endTime r) (Some E) x"
    if x: "x \<in> set docs" for x
  proof
    assume c: "conflictConditions (room r) (startTime r) (endTime r) (Some E) x"
    then have "rid x \<noteq> E" "room x = room r" "isActive x"
      and o: "conflictOr (startTime r) (endTime r) x"
      by (simp_all add: conflictConditions_def isActive_def)
    with h x have "\<not> overlaps_spec (startTime x) (endTime x) (startTime r) (endTime r)"
      by blast
    moreover from h x r have "startTime x < endTime x" "startTime r < endTime r"
      by blast+
    ultimately show False
      using o by (simp add: conflictOr_overlaps)
  qed
  then show "checkAvailability (room r) (startTime r) (endTime r) (Some E) docs"
    by (simp add: checkAvailability_iff)
qed

theorem checkAvailability_exclude_self_witness:
  "demoReservation \<in> set [demoReservation, neighbour]
   \<and> rid demoReservation = 0
   \<and> \<not> checkAvailability 1 10000000 13600000 None [demoReservation, neighbour]
   \<and> checkAvailability 1 10000000 13600000 (Some 0) [demoReservation, neighbour]"
proof -
  have "checkAvailability (room demoReservation) (startTime demoReservation)
          (endTime demoReservation) (Some 0) [demoReservation, neighbour]"
    using checkAvailability_exclude_self [of 1 0 0 0 "[demoReservation, neighbour]"]
    by (simp add: demoReservation_def neighbour_def isActive_def overlaps_spec_def)
  then show ?thesis
    by (simp add: demoReservation_def neighbour_def checkAvailability_def conflictConditions_def
        conflictOr_def)
qed


section \<open>Claims about cancellation\<close>

text \<open>
  C4. On an existing reservation, \<^verbatim>\<open>cancelReservation\<close> asked by its owner, who is not an
  administrator, succeeds and stores the status cancelled exactly when the status is confirmed
  and the current time is strictly more than two hours before the start; otherwise it answers
  with another status code and leaves the store as it was. Asked by an administrator it
  succeeds whatever the status and the time.
\<close>

theorem cancelReservation_owner_iff:
  assumes "findById i (reservations s) = Some r"
  shows "(role a \<noteq> RoleAdmin \<and> uid a = user r \<longrightarrow>
           ((statusCode (fst (cancelReservation now a i s)) = 200
             \<and> findById i (reservations (snd (cancelReservation now a i s)))
                 = Some (r\<lparr>status := Cancelled, updatedAt := now\<rparr>))
            \<longleftrightarrow> (status r = Confirmed \<and> now < startTime r - 2 * 60 * 60 * 1000))
           \<and> (\<not> (status r = Confirmed \<and> now < startTime r - 2 * 60 * 60 * 1000) \<longrightarrow>
                statusCode (fst (cancelReservation now a i s)) \<noteq> 200
                \<and> snd (cancelReservation now a i s) = s))
         \<and> (role a = RoleAdmin \<longrightarrow>
              cancelReservation now a i s
                = (Response 200 ''Reservation cancelled successfully''
                     (Some (r\<lparr>status := Cancelled, updatedAt := now\<rparr>)),
                   save (r\<lparr>status := Cancelled, updatedAt := now\<rparr>) s)
              \<and> findById i (reservations (snd (cancelReservation now a i s)))
                  = Some (r\<lparr>status := Cancelled, updatedAt := now\<rparr>))"
proof -
  have f: "findById i (reservations (save (r\<lparr>status := Cancelled, updatedAt := now\<rparr>) s))
           = Some (r\<lparr>status := Cancelled, updatedAt := now\<rparr>)"
    using assms by (simp add: findById_save)
  show ?thesis
    using assms f by (simp add: cancelReservation_def Let_def canBeCancelled_iff)
qed

theorem cancelReservation_owner_iff_witness:
  "findById 0 (reservations demoStore) = Some demoReservation
   \<and> role alice \<noteq> RoleAdmin \<and> uid alice = user demoReservation
   \<and> statusCode (fst (cancelReservation (-800000) alice 0 demoStore)) = 200
   \<and> statusCode (fst (cancelReservation 6400000 alice 0 demoStore)) \<noteq> 200
   \<and> role admin = RoleAdmin
   \<and> statusCode (fst (cancelReservation 6400000 admin 0 demoStore)) = 200"
proof -
  have h: "findById 0 (reservations demoStore) = Some demoReservation"
    by (simp add: findById_def demoStore_def demoReservation_def)
  have a: "role alice \<noteq> RoleAdmin \<and> uid alice = user demoReservation" "role admin = RoleAdmin"
    by (simp_all add: alice_def admin_def demoReservation_def)
  have t: "status demoReservation = Confirmed"
    "-800000 < startTime demoReservation - 2 * 60 * 60 * 1000"
    "\<not> 6400000 < startTime demoReservation - 2 * 60 * 60 * 1000"
    by (simp_all add: demoReservation_def)
  show ?thesis
    using h a t cancelReservation_owner_iff [OF h, of alice "-800000"]
      cancelReservation_owner_iff [OF h, of alice 6400000]
      cancelReservation_owner_iff [OF h, of admin 6400000]
    by simp
qed

text \<open>
  C5. The claim that the owner's cancellation inside the two-hour window is rejected as an
  access-control failure does not hold: the answer has status 400, the code of the
  validation rejections, and not 403, the code of the access-denied answers.
\<close>

theorem cancelReservation_lead_time_counterexample:
  "findById 0 (reservations demoStore) = Some demoReservation
   \<and> uid alice = user demoReservation \<and> role alice \<noteq> RoleAdmin
   \<and> status demoReservation = Confirmed
   \<and> startTime demoReservation - 6400000 = 60 * 60 * 1000
   \<and> cancelReservation 6400000 alice 0 demoStore
       = (Response 400
            ''Reservation cannot be cancelled. Must be cancelled at least 2 hours before start time.''
            None, demoStore)
   \<and> statusCode (fst (cancelReservation 6400000 alice 0 demoStore)) \<noteq> 403
   \<and> statusCode (fst (cancelReservation 6400000 bob 0 demoStore)) = 403
   \<and> statusCode (fst (cancelReservation 6400000 alice 0 demoStore))
       = statusCode (fst (updateReservationStatus 6400000 ''archived'' 0 demoStore))"
  by (simp add: cancelReservation_def updateReservationStatus_def statusOfString_def
      canBeCancelled_def findById_def demoStore_def demoReservation_def alice_def bob_def Let_def)

text \<open>
  C5, as amended. When the owner, who is not an administrator, cancels a confirmed
  reservation that starts two hours or less from now, the answer is the bad-request answer
  (status 400) with the message of the two-hour rule, the store is unchanged, and the status
  differs from the one of a missing reservation (404) and from the one of an access-denied
  answer (403).
\<close>

theorem cancelReservation_inside_lead_time:
  assumes "findById i (reservations s) = Some r"
    and "role a \<noteq> RoleAdmin" and "uid a = user r"
    and "status r = Confirmed" and "startTime r - now \<le> 2 * 60 * 60 * 1000"
  shows "cancelReservation now a i s
           = (Response 400
                ''Reservation cannot be cancelled. Must be cancelled at least 2 hours before start time.''
                None, s)
         \<and> statusCode (fst (cancelReservation now a i s)) \<noteq> 404
         \<and> statusCode (fst (cancelReservation now a i s)) \<noteq> 403"
  using assms by (simp add: cancelReservation_def canBeCancelled_iff)

theorem cancelReservation_inside_lead_time_witness:
  "findById 0 (reservations demoStore) = Some demoReservation
   \<and> role alice \<noteq> RoleAdmin \<and> uid alice = user demoReservation
   \<and> status demoReservation = Confirmed
   \<and> startTime demoReservation - 6400000 \<le> 2 * 60 * 60 * 1000
   \<and> cancelReservation 6400000 alice 0 demoStore
       = (Response 400
            ''Reservation cannot be cancelled. Must be cancelled at least 2 hours before start time.''
            None, demoStore)"
proof -
  have h: "findById 0 (reservations demoStore) = Some demoReservation"
    "role alice \<noteq> RoleAdmin" "uid alice = user demoReservation"
    "status demoReservation = Confirmed"
    "startTime demoReservation - 6400000 \<le> 2 * 60 * 60 * 1000"
    by (simp_all add: findById_def demoStore_def demoReservation_def alice_def)
  from cancelReservation_inside_lead_time [OF h] h show ?thesis
    by simp
qed

text \<open>
  C6. On an existing reservation, \<^verbatim>\<open>cancelReservation\<close> asked by somebody who is neither
  an administrator nor the owner is rejected with the access-denied answer (status 403),
  whatever the status of the reservation and the time, and the store is unchanged.
\<close>

theorem cancelReservation_not_owner:
  assumes "findById i (reservations s) = Some r"
    and "role a \<noteq> RoleAdmin" and "uid a \<noteq> user r"
  shows "cancelReservation now a i s
           = (Response 403 ''Access denied. You can only cancel your own reservations.'' None, s)"
  using assms by (auto simp: cancelReservation_def)

theorem cancelReservation_not_owner_witness:
  "findById 0 (reservations demoStore) = Some demoReservation
   \<and> role bob \<noteq> RoleAdmin \<and> uid bob \<noteq> user demoReservation
   \<and> cancelReservation (-800000) bob 0 demoStore
       = (Response 403 ''Access denied. You can only cancel your own reservations.'' None,
          demoStore)"
proof -
  have h: "findById 0 (reservations demoStore) = Some demoReservation"
    "role bob \<noteq> RoleAdmin" "uid bob \<noteq> user demoReservation"
    by (simp_all add: findById_def demoStore_def demoReservation_def bob_def)
  from cancelReservation_not_owner [OF h] h show ?thesis
    by simp
qed

text \<open>
  C10. On a reservation that is already cancelled, \<^verbatim>\<open>adminCancelReservation\<close> succeeds
  (status 200, no rejection), the status stays cancelled and no field changes but the
  \<^verbatim>\<open>updatedAt\<close> stamp of the save; a second call gives the answer and the store that a
  single call at that time gives.
\<close>

theorem adminCancelReservation_idempotent:
  assumes "findById i (reservations s) = Some r" and "status r = Cancelled"
  shows "adminCancelReservation now i s
           = (Response 200 ''Reservation cancelled by admin'' (Some (r\<lparr>updatedAt := now\<rparr>)),
              save (r\<lparr>updatedAt := now\<rparr>) s)
         \<and> findById i (reservations (snd (adminCancelReservation now i s)))
             = Some (r\<lparr>updatedAt := now\<rparr>)
         \<and> status (r\<lparr>updatedAt := now\<rparr>) = Cancelled
         \<and> adminCancelReservation now' i (snd (adminCancelReservation now i s))
             = adminCancelReservation now' i s"
proof -
  have c: "r\<lparr>status := Cancelled, updatedAt := t\<rparr> = r\<lparr>updatedAt := t\<rparr>" for t
    using assms(2) by simp
  have one: "adminCancelReservation t i s
           = (Response 200 ''Reservation cancelled by admin'' (Some (r\<lparr>updatedAt := t\<rparr>)),
              save (r\<lparr>updatedAt := t\<rparr>) s)" for t
    using assms(1) c by (simp add: adminCancelReservation_def Let_def)
  have f: "findById i (reservations (save (r\<lparr>updatedAt := now\<rparr>) s)) = Some (r\<lparr>updatedAt := now\<rparr>)"
    using assms(1) by (simp add: findById_save)
  have two: "adminCancelReservation now' i (save (r\<lparr>updatedAt := now\<rparr>) s)
           = (Response 200 ''Reservation cancelled by admin'' (Some (r\<lparr>updatedAt := now'\<rparr>)),
              save (r\<lparr>updatedAt := now'\<rparr>) s)"
    using f c by (simp add: adminCancelReservation_def Let_def save_save)
  show ?thesis
    using one f two assms(2) by simp
qed

theorem adminCancelReservation_idempotent_witness:
  "findById 0 (reservations cancelledStore) = Some (demoReservation\<lparr>status := Cancelled, updatedAt := 5\<rparr>)
   \<and> status (demoReservation\<lparr>status := Cancelled, updatedAt := 5\<rparr>) = Cancelled
   \<and> statusCode (fst (adminCancelReservation 5 0 cancelledStore)) = 200
   \<and> snd (adminCancelReservation 5 0 cancelledStore) = cancelledStore
   \<and> snd (router demoRooms (PatchAdminCancel 5 admin 0) (snd (router demoRooms (PatchAdminCancel 5 admin 0) demoStore)))
       = snd (router demoRooms (PatchAdminCancel 5 admin 0) demoStore)"
proof -
  have h: "findById 0 (reservations cancelledStore) = Some (demoReservation\<lparr>status := Cancelled, updatedAt := 5\<rparr>)"
    "status (demoReservation\<lparr>status := Cancelled, updatedAt := 5\<rparr>) = Cancelled"
    by (simp_all add: findById_def cancelledStore_def demoReservation_def)
  have e: "snd (adminCancelReservation 5 0 demoStore) = cancelledStore"
    by (simp add: adminCancelReservation_def findById_def demoStore_def cancelledStore_def
        demoReservation_def save_def Let_def)
  have s: "save (demoReservation\<lparr>status := Cancelled, updatedAt := 5\<rparr>) cancelledStore = cancelledStore"
    by (simp add: save_def cancelledStore_def demoReservation_def)
  from adminCancelReservation_idempotent [OF h, of 5 5] h e s show ?thesis
    by (simp add: authorize_def admin_def)
qed


section \<open>Claims about admission\<close>

text \<open>
  C7. For a request that passes the validation, names an active room, fits its capacity and
  finds the slot free: a duration of exactly 30 minutes is admitted, 29 minutes is rejected
  with the minimum-duration message, exactly 8 hours is admitted, 8 hours and 1 minute is
  rejected with the maximum-duration message; the request is admitted exactly when the
  duration lies between 30 minutes and 8 hours, both included, and the two rejections differ.
\<close>

theorem createReservation_duration_boundaries:
  assumes "createReservationValidation now b = None"
    and "rooms (reqRoom b) = Some rm" and "roomIsActive rm"
    and "reqAttendees b \<le> capacity rm"
    and "checkAvailability (reqRoom b) (reqStartTime b) (reqEndTime b) None (reservations s)"
  shows "(reqEndTime b - reqStartTime b = 30 * 60 * 1000 \<longrightarrow>
            createReservation rooms now a b s
              = (Response 201 ''Reservation created successfully'' (Some (createDoc now a b s)),
                 insertDoc (createDoc now a b s) s))
         \<and> (reqEndTime b - reqStartTime b = 29 * 60 * 1000 \<longrightarrow>
            createReservation rooms now a b s
              = (Response 400 ''Minimum booking duration is 30 minutes'' None, s))
         \<and> (reqEndTime b - reqStartTime b = 8 * 60 * 60 * 1000 \<longrightarrow>
            createReservation rooms now a b s
              = (Response 201 ''Reservation created successfully'' (Some (createDoc now a b s)),
                 insertDoc (createDoc now a b s) s))
         \<and> (reqEndTime b - reqStartTime b = 8 * 60 * 60 * 1000 + 60 * 1000 \<longrightarrow>
            createReservation rooms now a b s
              = (Response 400 ''Maximum booking duration is 8 hours'' None, s))
         \<and> (statusCode (fst (createReservation rooms now a b s)) = 201
              \<longleftrightarrow> 30 * 60 * 1000 \<le> reqEndTime b - reqStartTime b
                  \<and> reqEndTime b - reqStartTime b \<le> 8 * 60 * 60 * 1000)
         \<and> Response 400 ''Minimum booking duration is 30 minutes'' None
             \<noteq> Response 400 ''Maximum booking duration is 8 hours'' None"
  using assms by (simp add: createReservation_valid)

theorem createReservation_duration_boundaries_witness:
  "createReservationValidation 0 halfHour = None
   \<and> demoRooms (reqRoom halfHour) = Some \<lparr>capacity = 10, roomIsActive = True\<rparr>
   \<and> reqAttendees halfHour \<le> 10
   \<and> checkAvailability (reqRoom halfHour) (reqStartTime halfHour) (reqEndTime halfHour) None
        (reservations demoStore)
   \<and> reqEndTime halfHour - reqStartTime halfHour = 30 * 60 * 1000
   \<and> statusCode (fst (createReservation demoRooms 0 bob halfHour demoStore)) = 201
   \<and> createReservation demoRooms 0 bob (halfHour\<lparr>reqEndTime := 21740000\<rparr>) demoStore
       = (Response 400 ''Minimum booking duration is 30 minutes'' None, demoStore)"
proof -
  have h: "createReservationValidation 0 halfHour = None"
    "demoRooms (reqRoom halfHour) = Some \<lparr>capacity = 10, roomIsActive = True\<rparr>"
    "roomIsActive \<lparr>capacity = 10, roomIsActive = True\<rparr>"
    "reqAttendees halfHour \<le> capacity \<lparr>capacity = 10, roomIsActive = True\<rparr>"
    "checkAvailability (reqRoom halfHour) (reqStartTime halfHour) (reqEndTime halfHour) None
        (reservations demoStore)"
    by (simp_all add: createReservationValidation_def maxSafeInteger_def halfHour_def demoRooms_def
        checkAvailability_def conflictConditions_def conflictOr_def demoStore_def
        demoReservation_def)
  have k: "createReservationValidation 0 (halfHour\<lparr>reqEndTime := 21740000\<rparr>) = None"
    "demoRooms (reqRoom (halfHour\<lparr>reqEndTime := 21740000\<rparr>)) = Some \<lparr>capacity = 10, roomIsActive = True\<rparr>"
    "roomIsActive \<lparr>capacity = 10, roomIsActive = True\<rparr>"
    "reqAttendees (halfHour\<lparr>reqEndTime := 21740000\<rparr>) \<le> capacity \<lparr>capacity = 10, roomIsActive = True\<rparr>"
    "checkAvailability (reqRoom (halfHour\<lparr>reqEndTime := 21740000\<rparr>))
        (reqStartTime (halfHour\<lparr>reqEndTime := 21740000\<rparr>))
        (reqEndTime (halfHour\<lparr>reqEndTime := 21740000\<rparr>)) None (reservations demoStore)"
    by (simp_all add: createReservationValidation_def maxSafeInteger_def halfHour_def demoRooms_def
        checkAvailability_def conflictConditions_def conflictOr_def demoStore_def
        demoReservation_def)
  have d: "reqEndTime halfHour - reqStartTime halfHour = 30 * 60 * 1000"
    "reqEndTime (halfHour\<lparr>reqEndTime := 21740000\<rparr>) - reqStartTime (halfHour\<lparr>reqEndTime := 21740000\<rparr>)
       = 29 * 60 * 1000"
    by (simp_all add: halfHour_def)
  from createReservation_duration_boundaries
      [where rooms = demoRooms and b = halfHour and now = 0 and a = bob and s = demoStore, OF h]
    createReservation_duration_boundaries
      [where rooms = demoRooms and b = "halfHour\<lparr>reqEndTime := 21740000\<rparr>" and now = 0
         and a = bob and s = demoStore, OF k] h d
  show ?thesis by simp
qed

text \<open>
  C8. For a request that passes the validation (so that its attendees are a safe number, at
  least 1) and names an active room: with as many
  attendees as the capacity, the answer is not the capacity rejection, and the request is
  admitted when the slot is free and the duration is allowed; with more attendees than the
  capacity, the answer is the capacity rejection (status 400, with the capacity in the
  message) and the store is unchanged. That rejection differs from the slot-conflict
  rejection in status code and in message.
\<close>

theorem createReservation_capacity_boundary:
  assumes "createReservationValidation now b = None"
    and "rooms (reqRoom b) = Some rm" and "roomIsActive rm"
  shows "(reqAttendees b = capacity rm \<longrightarrow>
            message (fst (createReservation rooms now a b s))
              \<noteq> ''Room capacity exceeded. Maximum capacity: '' @ showInt (capacity rm)
            \<and> (checkAvailability (reqRoom b) (reqStartTime b) (reqEndTime b) None (reservations s)
                \<and> 30 * 60 * 1000 \<le> reqEndTime b - reqStartTime b
                \<and> reqEndTime b - reqStartTime b \<le> 8 * 60 * 60 * 1000 \<longrightarrow>
                createReservation rooms now a b s
                  = (Response 201 ''Reservation created successfully'' (Some (createDoc now a b s)),
                     insertDoc (createDoc now a b s) s)))
         \<and> (reqAttendees b > capacity rm \<longrightarrow>
              createReservation rooms now a b s
                = (Response 400
                     (''Room capacity exceeded. Maximum capacity: '' @ showInt (capacity rm))
                     None, s))
         \<and> statusCode (Response 400
                (''Room capacity exceeded. Maximum capacity: '' @ showInt (capacity rm)) None)
             \<noteq> statusCode (Response 409 ''Room is not available for the selected time slot'' None)
         \<and> ''Room capacity exceeded. Maximum capacity: '' @ showInt (capacity rm)
             \<noteq> ''Room is not available for the selected time slot''"
  using assms by (simp add: createReservation_valid)

theorem createReservation_capacity_boundary_witness:
  "createReservationValidation 0 halfHour = None
   \<and> demoRooms (reqRoom halfHour) = Some \<lparr>capacity = 10, roomIsActive = True\<rparr>
   \<and> reqAttendees halfHour = 10
   \<and> statusCode (fst (createReservation demoRooms 0 bob halfHour demoStore)) = 201
   \<and> reqAttendees (halfHour\<lparr>reqAttendees := 11\<rparr>) > 10
   \<and> createReservation demoRooms 0 bob (halfHour\<lparr>reqAttendees := 11\<rparr>) demoStore
       = (Response 400 ''Room capacity exceeded. Maximum capacity: 10'' None, demoStore)"
proof -
  have h: "createReservationValidation 0 halfHour = None"
    "demoRooms (reqRoom halfHour) = Some \<lparr>capacity = 10, roomIsActive = True\<rparr>"
    "roomIsActive \<lparr>capacity = 10, roomIsActive = True\<rparr>"
    by (simp_all add: createReservationValidation_def maxSafeInteger_def halfHour_def demoRooms_def)
  have k: "createReservationValidation 0 (halfHour\<lparr>reqAttendees := 11\<rparr>) = None"
    "demoRooms (reqRoom (halfHour\<lparr>reqAttendees := 11\<rparr>)) = Some \<lparr>capacity = 10, roomIsActive = True\<rparr>"
    "roomIsActive \<lparr>capacity = 10, roomIsActive = True\<rparr>"
    by (simp_all add: createReservationValidation_def maxSafeInteger_def halfHour_def demoRooms_def)
  have e: "reqAttendees halfHour = 10"
    "checkAvailability (reqRoom halfHour) (reqStartTime halfHour) (reqEndTime halfHour) None
        (reservations demoStore)"
    "reqEndTime halfHour - reqStartTime halfHour = 30 * 60 * 1000"
    by (simp_all add: halfHour_def checkAvailability_def conflictConditions_def conflictOr_def
        demoStore_def demoReservation_def)
  have t: "showInt 10 = ''10''"
    by code_simp
  from createReservation_capacity_boundary
      [where rooms = demoRooms and b = halfHour and now = 0 and a = bob and s = demoStore, OF h]
    createReservation_capacity_boundary
      [where rooms = demoRooms and b = "halfHour\<lparr>reqAttendees := 11\<rparr>" and now = 0
         and a = bob and s = demoStore, OF k] h e t
  show ?thesis by simp
qed





section \<open>Claims about the invariant\<close>

text \<open>
  C1. The no-overlap invariant does not hold after every sequence of requests: when a slot is
  booked, cancelled by the administrator, booked again by somebody else, and the first
  reservation is then set back to confirmed by \<^verbatim>\<open>updateReservationStatus\<close>, two confirmed
  reservations of the room have the same interval.
\<close>

theorem noOverlap_counterexample:
  "\<not> noOverlap (reservations
        (serve demoRooms (rebooked @ [PatchAdminStatus 7 admin ''confirmed'' 0]) emptyStore))"
  by (simp add: rebooked_def booking_def demoRooms_def alice_def bob_def admin_def emptyStore_def
      maxSafeInteger_def createReservation_def createReservationValidation_def createDoc_def insertDoc_def
      checkAvailability_def conflictConditions_def conflictOr_def authorize_def
      adminCancelReservation_def updateReservationStatus_def statusOfString_def findById_def
      save_def noOverlap_def isActive_def overlaps_spec_def Let_def)

text \<open>
  C1, as amended. Starting from the empty store, after any sequence of the four requests in
  which no status update by an administrator moves a cancelled or completed reservation back
  to pending or confirmed while another pending or confirmed reservation of the same room
  overlaps it, no two pending or confirmed reservations of a room overlap; the ids are
  distinct and every stored interval is well formed.
\<close>

theorem noOverlap_invariant:
  assumes "neverDoubleBooks rooms qs emptyStore"
  shows "noOverlap (reservations (serve rooms qs emptyStore))
         \<and> distinct (map rid (reservations (serve rooms qs emptyStore)))
         \<and> (\<forall>r \<in> set (reservations (serve rooms qs emptyStore)). startTime r < endTime r)"
  using storeInv_serve [OF storeInv_emptyStore assms] by (simp add: storeInv_def)

theorem noOverlap_invariant_witness:
  "neverDoubleBooks demoRooms reconfirmed emptyStore
   \<and> map status (reservations (serve demoRooms reconfirmed emptyStore)) = [Confirmed, Confirmed]
   \<and> noOverlap (reservations (serve demoRooms reconfirmed emptyStore))"
proof -
  have h: "neverDoubleBooks demoRooms reconfirmed emptyStore"
    by (simp add: reconfirmed_def booking_def laterBooking_def demoRooms_def alice_def bob_def
      admin_def emptyStore_def maxSafeInteger_def
      createReservation_def createReservationValidation_def createDoc_def insertDoc_def
      checkAvailability_def conflictConditions_def conflictOr_def authorize_def
      adminCancelReservation_def updateReservationStatus_def statusOfString_def findById_def
      save_def isActive_def overlaps_spec_def Let_def)
  have l: "map status (reservations (serve demoRooms reconfirmed emptyStore))
           = [Confirmed, Confirmed]"
    by (simp add: reconfirmed_def booking_def laterBooking_def demoRooms_def alice_def bob_def
      admin_def emptyStore_def maxSafeInteger_def
      createReservation_def createReservationValidation_def createDoc_def insertDoc_def
      checkAvailability_def conflictConditions_def conflictOr_def authorize_def
      adminCancelReservation_def updateReservationStatus_def statusOfString_def findById_def
      save_def isActive_def Let_def)
  from noOverlap_invariant [OF h] h l show ?thesis
    by simp
qed

end
